theory Spec2Isabelle
  imports Complex_Main "HOL-Library.Sublist"
begin

section \<open>JavaScript values used by the server\<close>

text \<open>
  The server (server.ts) is TypeScript on Node. Values that cross its boundaries are
  strings, optional strings (\<open>string | undefined\<close>) and parsed JSON. A JSON number is
  kept as a rational: the server never computes with one, it only tests truthiness.
\<close>

datatype json =
    JNull
  | JBool bool
  | JNumber rat
  | JString string
  | JArray "json list"
  | JObject "(string \<times> json) list"

text \<open>Truthiness of \<open>string | undefined\<close>: undefined and the empty string are falsy.\<close>

definition truthy_string :: "string option \<Rightarrow> bool" where
  "truthy_string s = (case s of None \<Rightarrow> False | Some v \<Rightarrow> v \<noteq> [])"

text \<open>Truthiness of a parsed JSON value.\<close>

fun truthy :: "json \<Rightarrow> bool" where
  "truthy JNull = False"
| "truthy (JBool b) = b"
| "truthy (JNumber n) = (n \<noteq> 0)"
| "truthy (JString s) = (s \<noteq> [])"
| "truthy (JArray xs) = True"
| "truthy (JObject kvs) = True"

text \<open>Decimal rendering of a number inside a template string.\<close>

fun string_of_nat :: "nat \<Rightarrow> string" where
  "string_of_nat n =
     (if n < 10 then [char_of (48 + n)]
      else string_of_nat (n div 10) @ [char_of (48 + n mod 10)])"

declare string_of_nat.simps [simp del]

text \<open>\<open>Array.prototype.some\<close> and \<open>Array.prototype.join\<close>.\<close>

fun array_some :: "('a \<Rightarrow> bool) \<Rightarrow> 'a list \<Rightarrow> bool" where
  "array_some p [] = False"
| "array_some p (x # xs) = (if p x then True else array_some p xs)"


section \<open>Configuration\<close>

text \<open>
  \<open>EnvSchema\<close>: the fields the request paths read. \<open>ALLOW_MUTATIONS\<close> is already the
  boolean the schema's transform yields; \<open>MCP_API_KEY\<close> is optional.
\<close>

record Env =
  ENDPOINT :: string
  ALLOW_MUTATIONS :: bool
  HEADERS :: "(string \<times> string) list"
  MCP_API_KEY :: "string option"

section \<open>Tool results and the world outside the process\<close>

text \<open>
  A tool result is \<open>{ isError?, content: [{ type: "text", text }] }\<close>; \<open>isError\<close> is
  \<open>None\<close> where the source leaves the field out. \<open>content\<close> lists the text items.
\<close>

record CallToolResult =
  isError :: "bool option"
  content :: "string list"

definition error_result :: "string \<Rightarrow> CallToolResult" where
  "error_result msg = \<lparr>isError = Some True, content = [msg]\<rparr>"

definition text_result :: "string \<Rightarrow> CallToolResult" where
  "text_result msg = \<lparr>isError = None, content = [msg]\<rparr>"

text \<open>The GraphQL AST as far as the handler looks at it: \<open>def.kind\<close>, \<open>def.operation\<close>.\<close>

record DefinitionNode =
  kind :: string
  operation :: "string option"

record DocumentNode =
  definitions :: "DefinitionNode list"

text \<open>The argument of \<open>fetch\<close> and the response it resolves to.\<close>

record RequestInit =
  init_method :: string
  init_headers :: "(string \<times> string) list"
  init_body :: string

record FetchResponse =
  resp_ok :: bool
  resp_status :: nat
  resp_statusText :: string
  resp_text :: "string + string"

type_synonym fetch_call = "string \<times> RequestInit"

text \<open>
  Library and network calls are parameters of the model. A call that throws (or a
  promise that rejects) returns \<open>Inl\<close> of the error's \<open>message\<close>.
  \<^item> \<open>JSON_parse\<close>, \<open>JSON_stringify v indent\<close>: the built-ins;
  \<^item> \<open>parse\<close>: \<open>parse\<close> of graphql/language;
  \<^item> \<open>fetch\<close>: the upstream HTTP call; \<open>resp_text\<close> is \<open>await response.text()\<close>;
  \<^item> \<open>js_gt_zero v\<close>: the comparison \<open>v > 0\<close> of JavaScript on a JSON value.
\<close>

record runtime =
  JSON_parse :: "string \<Rightarrow> string + json"
  JSON_stringify :: "json \<Rightarrow> nat \<Rightarrow> string"
  parse :: "string \<Rightarrow> string + DocumentNode"
  fetch :: "string \<Rightarrow> RequestInit \<Rightarrow> string + FetchResponse"
  js_gt_zero :: "json \<Rightarrow> bool"

section \<open>Tool query-graphql\<close>

text \<open>
  \<open>if (variables) { try { parsedVariables = JSON.parse(variables) } catch ... }\<close>:
  \<open>Inl\<close> is the early return, \<open>Inr\<close> the value of \<open>parsedVariables\<close> (\<open>None\<close> for undefined).
\<close>

definition parse_variables :: "runtime \<Rightarrow> string option \<Rightarrow> CallToolResult + json option" where
  "parse_variables rt variables =
     (if truthy_string variables then
        (case JSON_parse rt (the variables) of
           Inl msg \<Rightarrow>
             Inl (error_result (''Invalid variables: Must be a valid JSON string. Error: '' @ msg))
         | Inr v \<Rightarrow> Inr (Some v))
      else Inr None)"

text \<open>\<open>parsedQuery.definitions.some(def => def.kind === ... && def.operation === ...)\<close>\<close>

definition isMutation :: "DocumentNode \<Rightarrow> bool" where
  "isMutation parsedQuery =
     array_some (\<lambda>d. kind d = ''OperationDefinition'' \<and> operation d = Some ''mutation'')
       (definitions parsedQuery)"

text \<open>
  The second try block: parse the query, refuse a mutation when the flag is off.
  \<open>Some r\<close> is the early return, \<open>None\<close> falls through to the execution.
\<close>

definition validate_query :: "Env \<Rightarrow> runtime \<Rightarrow> string \<Rightarrow> CallToolResult option" where
  "validate_query env rt query =
     (case parse rt query of
        Inl msg \<Rightarrow> Some (error_result (''Invalid GraphQL query: '' @ msg))
      | Inr parsedQuery \<Rightarrow>
          if isMutation parsedQuery \<and> \<not> ALLOW_MUTATIONS env then
            Some (error_result
              ''Mutations are not allowed. Set ALLOW_MUTATIONS=true to enable them.'')
          else None)"

text \<open>
  \<open>data.errors && data.errors.length > 0\<close>, as the condition of the \<open>if\<close>. Reading a
  property of \<open>null\<close> throws a TypeError (\<open>Inl\<close>, with V8's message); on any other
  value a missing property is undefined. The assoc list of a \<open>JObject\<close> holds the own
  properties of the parsed object.
\<close>

definition TypeError_errors_of_null :: string where
  "TypeError_errors_of_null = ''Cannot read properties of null (reading 'errors')''"

fun length_gt_zero :: "runtime \<Rightarrow> json \<Rightarrow> bool" where
  "length_gt_zero rt (JString s) = (0 < length s)"
| "length_gt_zero rt (JArray xs) = (0 < length xs)"
| "length_gt_zero rt (JObject kvs) =
     (case map_of kvs ''length'' of None \<Rightarrow> False | Some v \<Rightarrow> js_gt_zero rt v)"
| "length_gt_zero rt v = False"

fun has_errors :: "runtime \<Rightarrow> json \<Rightarrow> string + bool" where
  "has_errors rt JNull = Inl TypeError_errors_of_null"
| "has_errors rt (JObject kvs) =
     (case map_of kvs ''errors'' of
        None \<Rightarrow> Inr False
      | Some e \<Rightarrow> Inr (truthy e \<and> length_gt_zero rt e))"
| "has_errors rt v = Inr False"

text \<open>The request the handler sends: \<open>fetch(env.ENDPOINT, { method, headers, body })\<close>.\<close>

definition request_body :: "runtime \<Rightarrow> string \<Rightarrow> json option \<Rightarrow> string" where
  "request_body rt query parsedVariables =
     JSON_stringify rt
       (JObject ((''query'', JString query) #
          (case parsedVariables of None \<Rightarrow> [] | Some v \<Rightarrow> [(''variables'', v)]))) 0"

definition upstream_request :: "Env \<Rightarrow> runtime \<Rightarrow> string \<Rightarrow> json option \<Rightarrow> fetch_call" where
  "upstream_request env rt query parsedVariables =
     (ENDPOINT env,
      \<lparr>init_method = ''POST'',
       init_headers = (''Content-Type'', ''application/json'') # HEADERS env,
       init_body = request_body rt query parsedVariables\<rparr>)"

text \<open>
  The third try block. Everything after the \<open>fetch\<close> call that throws lands in the
  outer catch (\<open>Failed to execute GraphQL query\<close>).
\<close>

definition handle_response :: "runtime \<Rightarrow> FetchResponse \<Rightarrow> CallToolResult" where
  "handle_response rt response =
     (case resp_text response of
        Inl msg \<Rightarrow> error_result (''Failed to execute GraphQL query: '' @ msg)
      | Inr responseText \<Rightarrow>
          if \<not> resp_ok response then
            error_result (''GraphQL request failed: '' @ string_of_nat (resp_status response)
              @ '' '' @ resp_statusText response @ [CHR 0x0A] @ responseText)
          else
            (case JSON_parse rt responseText of
               Inl msg \<Rightarrow>
                 error_result (''Failed to parse GraphQL JSON response: '' @ msg
                   @ [CHR 0x0A] @ ''Response Body Hint:'' @ [CHR 0x0A]
                   @ take 200 responseText @ ''...'')
             | Inr data \<Rightarrow>
                 (case has_errors rt data of
                    Inl msg \<Rightarrow> error_result (''Failed to execute GraphQL query: '' @ msg)
                  | Inr True \<Rightarrow>
                      text_result
                        (''GraphQL query executed, but the response contains errors: ''
                          @ JSON_stringify rt data 2)
                  | Inr False \<Rightarrow> text_result (JSON_stringify rt data 2))))"

definition execute_query ::
    "Env \<Rightarrow> runtime \<Rightarrow> string \<Rightarrow> json option \<Rightarrow> CallToolResult \<times> fetch_call list" where
  "execute_query env rt query parsedVariables =
     (let call = upstream_request env rt query parsedVariables in
      (case fetch rt (fst call) (snd call) of
         Inl msg \<Rightarrow> (error_result (''Failed to execute GraphQL query: '' @ msg), [call])
       | Inr response \<Rightarrow> (handle_response rt response, [call])))"

text \<open>
  The handler of \<open>query-graphql\<close>: its result and the upstream requests it sent, in
  order.
\<close>

definition query_graphql ::
    "Env \<Rightarrow> runtime \<Rightarrow> string \<Rightarrow> string option \<Rightarrow> CallToolResult \<times> fetch_call list" where
  "query_graphql env rt query variables =
     (case parse_variables rt variables of
        Inl r \<Rightarrow> (r, [])
      | Inr parsedVariables \<Rightarrow>
          (case validate_query env rt query of
             Some r \<Rightarrow> (r, [])
           | None \<Rightarrow> execute_query env rt query parsedVariables))"

section \<open>Tool search-schema and the retrieval call behind it (rag.ts)\<close>




datatype rag_call =
    Embeddings_create string
  | Qdrant_search "rat list" rat
  | Qdrant_recreateCollection nat
  | Qdrant_upsert "(nat \<times> rat list \<times> string) list"






section \<open>Requests, the API key middleware\<close>

text \<open>
  A request as the handlers read it. \<open>req_path\<close> is the registered path the URL is
  matched to by the router (\<open>Elsewhere\<close>: none of the three).
\<close>

datatype http_method = GET | POST | DELETE | OTHER_METHOD

datatype route_path = Path_mcp | Path_sse | Path_messages | Elsewhere

record Request =
  req_method :: http_method
  req_path :: route_path
  header_x_api_key :: "string option"
  header_mcp_session_id :: "string option"
  query_sessionId :: "string option"
  req_body :: json

datatype middleware_result =
    Next
  | Respond nat string

definition authenticateApiKey :: "Env \<Rightarrow> Request \<Rightarrow> middleware_result" where
  "authenticateApiKey env req =
     (if \<not> truthy_string (MCP_API_KEY env) then Next
      else
        (let providedKey = header_x_api_key req in
         if \<not> truthy_string providedKey then
           Respond 401 ''Unauthorized: Missing X-API-Key header''
         else if providedKey \<noteq> MCP_API_KEY env then
           Respond 403 ''Forbidden: Invalid API Key''
         else Next))"

text \<open>\<open>app.use("/mcp", authenticateApiKey); app.use("/messages", authenticateApiKey)\<close>\<close>

definition app_use :: "(route_path \<times> (Env \<Rightarrow> Request \<Rightarrow> middleware_result)) list" where
  "app_use = [(Path_mcp, authenticateApiKey), (Path_messages, authenticateApiKey)]"

fun run_middleware ::
    "(route_path \<times> (Env \<Rightarrow> Request \<Rightarrow> middleware_result)) list \<Rightarrow> Env \<Rightarrow> Request
      \<Rightarrow> middleware_result" where
  "run_middleware [] env req = Next"
| "run_middleware ((mount, mw) # rest) env req =
     (if req_path req = mount then
        (case mw env req of
           Next \<Rightarrow> run_middleware rest env req
         | Respond code msg \<Rightarrow> Respond code msg)
      else run_middleware rest env req)"

section \<open>The session registries and the transports\<close>

text \<open>
  Both registries are object literals used as dictionaries
  (\<open>const streamableTransports: Record<string, ...> = {}\<close>). Reading \<open>obj[key]\<close> finds
  an own property, or else a property inherited from \<open>Object.prototype\<close>, or else
  undefined. An inherited property is a function or an object, so it is truthy.
\<close>

definition Object_prototype_keys :: "string list" where
  "Object_prototype_keys =
     [''constructor'', ''__proto__'', ''hasOwnProperty'', ''isPrototypeOf'',
      ''propertyIsEnumerable'', ''toLocaleString'', ''toString'', ''valueOf'',
      ''__defineGetter__'', ''__defineSetter__'', ''__lookupGetter__'', ''__lookupSetter__'']"

datatype 'a property = Own 'a | Inherited | Undefined

definition js_get :: "(string \<rightharpoonup> 'a) \<Rightarrow> string \<Rightarrow> 'a property" where
  "js_get obj key =
     (case obj key of
        Some v \<Rightarrow> Own v
      | None \<Rightarrow> if key \<in> set Object_prototype_keys then Inherited else Undefined)"

text \<open>
  A transport object, with the variables its callbacks close over. Transports are
  numbered in the order of their creation; a registry holds such numbers.
\<close>

datatype transport_kind = StreamableHTTP | SSE

record Transport =
  transport_kind :: transport_kind
  sessionId :: "string option"
  sessionTimeoutHandle :: "nat option"
  closed :: bool

record Timeout =
  deadline :: nat
  timeout_id :: string
  timeout_transport :: nat

text \<open>
  The process state: the two registries, the transport objects, the McpServer instances
  built so far (each listed by the transport it was connected to), the pending timeouts
  of the event loop and its clock in milliseconds.
\<close>

record State =
  streamableTransports :: "string \<rightharpoonup> nat"
  sseTransports :: "string \<rightharpoonup> nat"
  transports :: "nat \<rightharpoonup> Transport"
  next_transport :: nat
  servers :: "nat list"
  timers :: "nat \<rightharpoonup> Timeout"
  next_timer :: nat
  now :: nat

definition initial_state :: State where
  "initial_state =
     \<lparr>streamableTransports = Map.empty, sseTransports = Map.empty,
      transports = Map.empty, next_transport = 0, servers = [],
      timers = Map.empty, next_timer = 0, now = 0\<rparr>"

text \<open>
  What the SDK does inside \<open>transport.handleRequest\<close>: nothing the server sees, or it
  mints an id with \<open>sessionIdGenerator\<close> and calls \<open>onsessioninitialized\<close>, or it
  closes the transport and calls \<open>onclose\<close>.
\<close>

datatype sdk_effect =
    No_callback
  | Session_initialized string
  | Transport_closed

datatype close_result = Close_ok | Close_throws

datatype Outcome =
    Sent nat string
  | SentJson nat json
  | Handled nat
  | Connected nat
  | Threw string
  | NotFound

definition new_transport :: "transport_kind \<Rightarrow> string option \<Rightarrow> State \<Rightarrow> nat \<times> State" where
  "new_transport k sid st =
     (next_transport st,
      st\<lparr>transports := (transports st)(next_transport st \<mapsto>
            \<lparr>transport_kind = k, sessionId = sid, sessionTimeoutHandle = None, closed = False\<rparr>),
         next_transport := Suc (next_transport st)\<rparr>)"

text \<open>\<open>const server = await buildMcpServer(); await server.connect(transport)\<close>\<close>

definition buildMcpServer_connect :: "nat \<Rightarrow> State \<Rightarrow> State" where
  "buildMcpServer_connect t st = st\<lparr>servers := servers st @ [t]\<rparr>"

definition timeoutMs :: nat where
  "timeoutMs = 1000 * 60 * 60"

definition clearTimeout :: "nat \<Rightarrow> State \<Rightarrow> State" where
  "clearTimeout h st = st\<lparr>timers := (timers st)(h := None)\<rparr>"

text \<open>The callback \<open>onsessioninitialized: id => { ... }\<close> of transport \<open>t\<close>.\<close>

definition onsessioninitialized :: "nat \<Rightarrow> string \<Rightarrow> State \<Rightarrow> State" where
  "onsessioninitialized t sid st =
     (let st1 = st\<lparr>streamableTransports := (streamableTransports st)(sid \<mapsto> t)\<rparr>;
          h = next_timer st1;
          st2 = st1\<lparr>timers := (timers st1)(h \<mapsto>
                    \<lparr>deadline = now st1 + timeoutMs, timeout_id = sid, timeout_transport = t\<rparr>),
                  next_timer := Suc h\<rparr>
      in st2\<lparr>transports := (transports st2)(t :=
                map_option (\<lambda>tr. tr\<lparr>sessionTimeoutHandle := Some h\<rparr>) (transports st2 t))\<rparr>)"

text \<open>The callback \<open>transport.onclose = () => { ... }\<close> of transport \<open>t\<close>.\<close>

definition onclose :: "nat \<Rightarrow> State \<Rightarrow> State" where
  "onclose t st =
     (case transports st t of
        None \<Rightarrow> st
      | Some tr \<Rightarrow>
          if truthy_string (sessionId tr) then
            (let st1 = (case sessionTimeoutHandle tr of
                          None \<Rightarrow> st
                        | Some h \<Rightarrow> clearTimeout h st)
             in st1\<lparr>streamableTransports := (streamableTransports st1)(the (sessionId tr) := None)\<rparr>)
          else st)"

text \<open>\<open>transport.close()\<close> of the SDK when it succeeds: the transport is closed and its
  \<open>onclose\<close> runs.\<close>

definition transport_close :: "nat \<Rightarrow> State \<Rightarrow> State" where
  "transport_close t st =
     onclose t (st\<lparr>transports := (transports st)(t :=
        map_option (\<lambda>tr. tr\<lparr>closed := True\<rparr>) (transports st t))\<rparr>)"

definition handleRequest :: "nat \<Rightarrow> sdk_effect \<Rightarrow> State \<Rightarrow> State" where
  "handleRequest t eff st =
     (case eff of
        No_callback \<Rightarrow> st
      | Session_initialized sid \<Rightarrow>
          onsessioninitialized t sid
            (st\<lparr>transports := (transports st)(t :=
                map_option (\<lambda>tr. tr\<lparr>sessionId := Some sid\<rparr>) (transports st t))\<rparr>)
      | Transport_closed \<Rightarrow> transport_close t st)"

text \<open>The body of the \<open>setTimeout\<close> callback armed in \<open>onsessioninitialized\<close>.\<close>

definition timeout_callback :: "Timeout \<Rightarrow> close_result \<Rightarrow> State \<Rightarrow> State" where
  "timeout_callback tm cr st =
     (let st1 = st\<lparr>streamableTransports := (streamableTransports st)(timeout_id tm := None)\<rparr>
      in case cr of
           Close_ok \<Rightarrow> transport_close (timeout_transport tm) st1
         | Close_throws \<Rightarrow> st1)"

section \<open>The three routes\<close>

definition invalid_handshake :: json where
  "invalid_handshake =
     JObject [(''jsonrpc'', JString ''2.0''),
              (''error'', JObject [(''code'', JNumber (- 32000)),
                                   (''message'', JString ''Bad Request: invalid MCP handshake'')]),
              (''id'', JNull)]"

text \<open>
  \<open>app.all("/mcp", ...)\<close>. \<open>isInitializeRequest\<close> is the SDK's test of the body. On the
  reuse branch with an inherited property in place of a transport, the call
  \<open>transport.handleRequest(...)\<close> throws a TypeError.
\<close>

definition mcp_route ::
    "(json \<Rightarrow> bool) \<Rightarrow> Request \<Rightarrow> sdk_effect \<Rightarrow> State \<Rightarrow> Outcome \<times> State" where
  "mcp_route isInitializeRequest req eff st =
     (let sid = header_mcp_session_id req in
      if truthy_string sid \<and> js_get (streamableTransports st) (the sid) \<noteq> Undefined then
        (case js_get (streamableTransports st) (the sid) of
           Own transport \<Rightarrow> (Handled transport, handleRequest transport eff st)
         | _ \<Rightarrow> (Threw ''transport.handleRequest is not a function'', st))
      else if \<not> truthy_string sid \<and> isInitializeRequest (req_body req) then
        (let (transport, st1) = new_transport StreamableHTTP None st;
             st2 = buildMcpServer_connect transport st1
         in (Handled transport, handleRequest transport eff st2))
      else (SentJson 400 invalid_handshake, st))"

text \<open>
  \<open>app.get("/sse", ...)\<close>: the SSE transport takes its session id in its constructor
  (\<open>minted\<close>). \<open>res_close\<close> is the handler of the response's close event.
\<close>

definition sse_route :: "string \<Rightarrow> State \<Rightarrow> Outcome \<times> State" where
  "sse_route minted st =
     (let (transport, st1) = new_transport SSE (Some minted) st;
          st2 = st1\<lparr>sseTransports := (sseTransports st1)(minted \<mapsto> transport)\<rparr>;
          st3 = buildMcpServer_connect transport st2
      in (Connected transport, st3))"

definition res_close :: "nat \<Rightarrow> State \<Rightarrow> State" where
  "res_close t st =
     (case transports st t of
        None \<Rightarrow> st
      | Some tr \<Rightarrow>
          (case sessionId tr of
             None \<Rightarrow> st
           | Some sid \<Rightarrow> st\<lparr>sseTransports := (sseTransports st)(sid := None)\<rparr>))"

text \<open>
  \<open>app.post("/messages", ...)\<close>: a missing query parameter is undefined, which as a
  property key reads \<open>"undefined"\<close>.
\<close>

definition messages_route :: "Request \<Rightarrow> State \<Rightarrow> Outcome \<times> State" where
  "messages_route req st =
     (let sid = (case query_sessionId req of None \<Rightarrow> ''undefined'' | Some s \<Rightarrow> s) in
      case js_get (sseTransports st) sid of
        Undefined \<Rightarrow> (Sent 400 ''Unknown or expired sessionId'', st)
      | Own transport \<Rightarrow> (Handled transport, st)
      | Inherited \<Rightarrow> (Threw ''transport.handlePostMessage is not a function'', st))"

text \<open>
  The application: the mounted middleware first, then the route of the path and method.
  \<open>eff\<close> and \<open>minted\<close> are what the SDK does while the request is served.
\<close>

definition app ::
    "Env \<Rightarrow> (json \<Rightarrow> bool) \<Rightarrow> Request \<Rightarrow> sdk_effect \<Rightarrow> string \<Rightarrow> State \<Rightarrow> Outcome \<times> State" where
  "app env isInitializeRequest req eff minted st =
     (case run_middleware app_use env req of
        Respond code msg \<Rightarrow> (Sent code msg, st)
      | Next \<Rightarrow>
          if req_path req = Path_mcp then mcp_route isInitializeRequest req eff st
          else if req_path req = Path_sse \<and> req_method req = GET then sse_route minted st
          else if req_path req = Path_messages \<and> req_method req = POST then messages_route req st
          else (NotFound, st))"

section \<open>The event loop\<close>

text \<open>
  A pending timeout fires once the clock has reached its deadline: the event loop takes
  it off the pending set and runs its callback.
\<close>

definition fire :: "nat \<Rightarrow> close_result \<Rightarrow> State \<Rightarrow> State" where
  "fire h cr st =
     (case timers st h of
        None \<Rightarrow> st
      | Some tm \<Rightarrow>
          if deadline tm \<le> now st then
            timeout_callback tm cr (st\<lparr>timers := (timers st)(h := None)\<rparr>)
          else st)"

datatype Event =
    Incoming Request sdk_effect string
  | Timer_fires nat close_result
  | Response_closes nat
  | Tick nat

definition step :: "Env \<Rightarrow> (json \<Rightarrow> bool) \<Rightarrow> Event \<Rightarrow> State \<Rightarrow> State" where
  "step env isInitializeRequest ev st =
     (case ev of
        Incoming req eff minted \<Rightarrow> snd (app env isInitializeRequest req eff minted st)
      | Timer_fires h cr \<Rightarrow> fire h cr st
      | Response_closes t \<Rightarrow>
          (case transports st t of
             None \<Rightarrow> st
           | Some tr \<Rightarrow> if transport_kind tr = SSE then res_close t st else st)
      | Tick n \<Rightarrow> st\<lparr>now := now st + n\<rparr>)"

fun run :: "Env \<Rightarrow> (json \<Rightarrow> bool) \<Rightarrow> Event list \<Rightarrow> State \<Rightarrow> State" where
  "run env isInitializeRequest [] st = st"
| "run env isInitializeRequest (ev # evs) st =
     run env isInitializeRequest evs (step env isInitializeRequest ev st)"

text \<open>
  What the SDK guarantees about the ids it mints (\<open>randomUUID\<close>): an id is not empty
  and not in use, and a streamable transport is initialized only by a request that
  carries no session id.
\<close>

definition sdk_contract :: "State \<Rightarrow> Event \<Rightarrow> bool" where
  "sdk_contract st ev =
     (case ev of
        Incoming req eff minted \<Rightarrow>
          (case eff of
             Session_initialized sid \<Rightarrow>
               sid \<noteq> [] \<and> streamableTransports st sid = None
               \<and> \<not> truthy_string (header_mcp_session_id req)
           | _ \<Rightarrow> True)
          \<and> minted \<noteq> [] \<and> sseTransports st minted = None
      | _ \<Rightarrow> True)"

inductive reachable :: "Env \<Rightarrow> (json \<Rightarrow> bool) \<Rightarrow> State \<Rightarrow> bool"
  for env :: Env and isInitializeRequest :: "json \<Rightarrow> bool" where
  reachable_initial: "reachable env isInitializeRequest initial_state"
| reachable_step:
    "reachable env isInitializeRequest st \<Longrightarrow> sdk_contract st ev \<Longrightarrow>
     reachable env isInitializeRequest (step env isInitializeRequest ev st)"

section \<open>Reindexing (rag.ts, refreshSchema)\<close>

text \<open>
  The data flow of \<open>refreshSchema\<close>, without the scheduling of the embedding calls
  (they run under \<open>pLimit(3)\<close>; \<open>Promise.all\<close> returns their results in the order of the
  chunks). \<open>embed i chunk\<close> is the outcome of the embedding call for the chunk at
  position \<open>i\<close>; the store calls answer \<open>Some\<close> message when they throw. The result lists
  the calls made to the vector store.
\<close>

record reindex_services =
  splitText :: "string \<Rightarrow> string list"
  embed :: "nat \<Rightarrow> string \<Rightarrow> string + rat list list"
  recreateCollection :: "nat \<Rightarrow> string option"
  upsert :: "(nat \<times> rat list \<times> string) list \<Rightarrow> string option"

text \<open>
  The task given to the limiter: \<open>try { ... return { chunk, vec } } catch { return null }\<close>.
  An answer with no embedding makes \<open>r.data[0].embedding\<close> throw inside the same try.
\<close>

definition embed_task :: "reindex_services \<Rightarrow> nat \<times> string \<Rightarrow> (string \<times> rat list) option" where
  "embed_task svc = (\<lambda>(i, docContent).
     (case embed svc i docContent of
        Inl msg \<Rightarrow> None
      | Inr data \<Rightarrow> (case data of [] \<Rightarrow> None | vec # _ \<Rightarrow> Some (docContent, vec))))"

definition valid_vectors :: "reindex_services \<Rightarrow> string list \<Rightarrow> (string \<times> rat list) list" where
  "valid_vectors svc docs =
     map the (filter (\<lambda>v. v \<noteq> None) (map (embed_task svc) (enumerate 0 docs)))"

definition refreshSchema :: "reindex_services \<Rightarrow> string \<Rightarrow> rag_call list" where
  "refreshSchema svc schemaSDL =
     (let docs = splitText svc schemaSDL in
      if length docs = 0 then []
      else
        (let validVectors = valid_vectors svc docs in
         if length validVectors = 0 then []
         else
           (let size = length (snd (hd validVectors));
                points = map (\<lambda>(i, v). (i, snd v, fst v)) (enumerate 0 validVectors)
            in case recreateCollection svc size of
                 Some msg \<Rightarrow> [Qdrant_recreateCollection size]
               | None \<Rightarrow> [Qdrant_recreateCollection size, Qdrant_upsert points])))"

section \<open>Failure modes of query-graphql\<close>








section \<open>The registry invariant\<close>


section \<open>Sample runs\<close>

text \<open>
  A run of the tools against fixed surroundings, for the examples further down. The
  parsers and the serializer answer as the real ones do on the values the examples use
  (the queries and the invalid inputs of the repository's test client among them); every
  other string is an error to the parsers, with a wording of the sample's own.
  \<open>upstream\<close> is what \<open>fetch\<close> resolves or rejects to.
\<close>

definition sample_JSON_parse :: "string \<Rightarrow> string + json" where
  \<open>sample_JSON_parse s =
     (if s = ''{"name":"MCP User"}'' then Inr (JObject [(''name'', JString ''MCP User'')])
      else if s = ''{"data":{"__typename":"Query"}}'' then
        Inr (JObject [(''data'', JObject [(''__typename'', JString ''Query'')])])
      else if s = ''{"errors":[{"message":"boom"}]}'' then
        Inr (JObject [(''errors'', JArray [JObject [(''message'', JString ''boom'')]])])
      else if s = ''null'' then Inr JNull
      else Inl ''Unexpected token in JSON'')\<close>

definition sample_JSON_stringify :: "json \<Rightarrow> nat \<Rightarrow> string" where
  \<open>sample_JSON_stringify v indent =
     (if v = JObject [(''query'', JString ''{ __typename }'')] \<and> indent = 0 then
        ''{"query":"{ __typename }"}''
      else if v = JObject [(''query'', JString ''subscription { ticks }'')] \<and> indent = 0 then
        ''{"query":"subscription { ticks }"}''
      else if v = JObject [(''query'', JString ''mutation { addData { id } }'')] \<and> indent = 0 then
        ''{"query":"mutation { addData { id } }"}''
      else if v = JObject [(''data'', JObject [(''__typename'', JString ''Query'')])]
              \<and> indent = 2 then
        ''{'' @ [CHR 0x0A] @ ''  "data": {'' @ [CHR 0x0A] @ ''    "__typename": "Query"''
          @ [CHR 0x0A] @ ''  }'' @ [CHR 0x0A] @ ''}''
      else if v = JObject [(''errors'', JArray [JObject [(''message'', JString ''boom'')]])]
              \<and> indent = 2 then
        ''{'' @ [CHR 0x0A] @ ''  "errors": ['' @ [CHR 0x0A] @ ''    {'' @ [CHR 0x0A]
          @ ''      "message": "boom"'' @ [CHR 0x0A] @ ''    }'' @ [CHR 0x0A] @ ''  ]''
          @ [CHR 0x0A] @ ''}''
      else ''null'')\<close>

definition sample_parse :: "string \<Rightarrow> string + DocumentNode" where
  \<open>sample_parse q =
     (if q = ''{ __typename }'' then
        Inr \<lparr>definitions = [\<lparr>kind = ''OperationDefinition'', operation = Some ''query''\<rparr>]\<rparr>
      else if q = ''subscription { ticks }'' then
        Inr \<lparr>definitions =
              [\<lparr>kind = ''OperationDefinition'', operation = Some ''subscription''\<rparr>]\<rparr>
      else if q = ''mutation { addData { id } }'' then
        Inr \<lparr>definitions = [\<lparr>kind = ''OperationDefinition'', operation = Some ''mutation''\<rparr>]\<rparr>
      else Inl ''Syntax Error: Expected Name, found <EOF>.'')\<close>

definition sample_runtime :: "(string + FetchResponse) \<Rightarrow> runtime" where
  "sample_runtime upstream =
     \<lparr>JSON_parse = sample_JSON_parse,
      JSON_stringify = sample_JSON_stringify,
      parse = sample_parse,
      fetch = (\<lambda>url init. upstream),
      js_gt_zero = (\<lambda>v. case v of JNumber n \<Rightarrow> 0 < n | JBool b \<Rightarrow> b | _ \<Rightarrow> False)\<rparr>"

definition sample_env :: "bool \<Rightarrow> string option \<Rightarrow> Env" where
  "sample_env allow key =
     \<lparr>ENDPOINT = ''http://localhost:4000/graphql'', ALLOW_MUTATIONS = allow,
      HEADERS = [], MCP_API_KEY = key\<rparr>"

definition http_response :: "nat \<Rightarrow> string \<Rightarrow> string \<Rightarrow> string + FetchResponse" where
  "http_response code reason body =
     Inr \<lparr>resp_ok = (200 \<le> code \<and> code \<le> 299), resp_status = code,
          resp_statusText = reason, resp_text = Inr body\<rparr>"

definition invalid_variables :: string where
  \<open>invalid_variables = ''{ "name": "MissingQuote }''\<close>

definition invalid_query :: string where
  "invalid_query = ''{ missingClosingBrace''"

definition errors_body :: string where
  \<open>errors_body = ''{"errors":[{"message":"boom"}]}''\<close>

definition data_body :: string where
  \<open>data_body = ''{"data":{"__typename":"Query"}}''\<close>

definition mutation_document :: DocumentNode where
  "mutation_document =
     \<lparr>definitions = [\<lparr>kind = ''OperationDefinition'', operation = Some ''mutation''\<rparr>]\<rparr>"

definition subscription_document :: DocumentNode where
  "subscription_document =
     \<lparr>definitions = [\<lparr>kind = ''OperationDefinition'', operation = Some ''subscription''\<rparr>]\<rparr>"



text \<open>
  Requests for the examples of the multiplexer. The sample \<open>isInitializeRequest\<close>
  looks at the method of the JSON-RPC body only.
\<close>

definition sample_isInitializeRequest :: "json \<Rightarrow> bool" where
  "sample_isInitializeRequest body =
     (case body of
        JObject kvs \<Rightarrow> map_of kvs ''method'' = Some (JString ''initialize'')
      | _ \<Rightarrow> False)"

definition jsonrpc_body :: "string \<Rightarrow> json" where
  "jsonrpc_body m =
     JObject [(''jsonrpc'', JString ''2.0''), (''id'', JNumber 1), (''method'', JString m)]"

definition initialize_request :: Request where
  "initialize_request =
     \<lparr>req_method = POST, req_path = Path_mcp, header_x_api_key = None,
      header_mcp_session_id = None, query_sessionId = None,
      req_body = jsonrpc_body ''initialize''\<rparr>"

definition tool_request :: "string \<Rightarrow> Request" where
  "tool_request sid =
     \<lparr>req_method = POST, req_path = Path_mcp, header_x_api_key = None,
      header_mcp_session_id = Some sid, query_sessionId = None,
      req_body = jsonrpc_body ''tools/call''\<rparr>"

definition sse_request :: Request where
  "sse_request =
     \<lparr>req_method = GET, req_path = Path_sse, header_x_api_key = None,
      header_mcp_session_id = None, query_sessionId = None, req_body = JObject []\<rparr>"

definition messages_request :: "string \<Rightarrow> Request" where
  "messages_request sid =
     \<lparr>req_method = POST, req_path = Path_messages, header_x_api_key = None,
      header_mcp_session_id = None, query_sessionId = Some sid,
      req_body = jsonrpc_body ''tools/call''\<rparr>"


text \<open>A schema of ten chunks whose embedding fails for the chunks at positions 3 and 7.\<close>

definition ten_chunks :: "string list" where
  "ten_chunks = [''c0'', ''c1'', ''c2'', ''c3'', ''c4'', ''c5'', ''c6'', ''c7'', ''c8'', ''c9'']"

definition failing_services :: reindex_services where
  "failing_services =
     \<lparr>splitText = (\<lambda>schemaSDL. ten_chunks),
      embed = (\<lambda>i chunk. if i = 3 \<or> i = 7 then Inl ''429 rate limited''
                          else Inr [[of_nat i, 1]]),
      recreateCollection = (\<lambda>size. None),
      upsert = (\<lambda>points. None)\<rparr>"

section \<open>Properties of query-graphql\<close>

lemmas sample_defs =
  sample_runtime_def sample_parse_def sample_JSON_parse_def sample_JSON_stringify_def
  sample_env_def http_response_def invalid_variables_def invalid_query_def errors_body_def
  data_body_def mutation_document_def subscription_document_def

lemma array_some_iff: "array_some p xs \<longleftrightarrow> (\<exists>x \<in> set xs. p x)"
  by (induction xs) auto

lemma not_allowed_in_message:
  "sublist ''not allowed''
     ''Mutations are not allowed. Set ALLOW_MUTATIONS=true to enable them.''"
  by code_simp

lemma parse_variables_absent: "parse_variables rt None = Inr None"
  by (simp add: parse_variables_def truthy_string_def)

lemma parse_variables_Inl:
  "parse_variables rt variables = Inl r \<longleftrightarrow>
     (\<exists>msg. truthy_string variables \<and> JSON_parse rt (the variables) = Inl msg
        \<and> r = error_result (''Invalid variables: Must be a valid JSON string. Error: '' @ msg))"
  by (auto simp: parse_variables_def split: sum.splits)

lemma parse_variables_Inl_isError: "parse_variables rt variables = Inl r \<Longrightarrow> isError r = Some True"
  by (auto simp: parse_variables_Inl error_result_def)


lemma query_graphql_rejected:
  "validate_query env rt query = Some r \<Longrightarrow>
   query_graphql env rt query variables =
     (case parse_variables rt variables of Inl r' \<Rightarrow> (r', []) | Inr pv \<Rightarrow> (r, []))"
  by (simp add: query_graphql_def split: sum.splits)

lemma query_graphql_forwarded:
  "parse_variables rt variables = Inr pv \<Longrightarrow> validate_query env rt query = None \<Longrightarrow>
   query_graphql env rt query variables = execute_query env rt query pv"
  by (simp add: query_graphql_def)

lemma snd_execute_query:
  "snd (execute_query env rt query pv) = [upstream_request env rt query pv]"
  by (simp add: execute_query_def Let_def split: sum.splits)

lemma validate_query_syntax_error:
  "parse rt query = Inl msg \<Longrightarrow>
   validate_query env rt query = Some (error_result (''Invalid GraphQL query: '' @ msg))"
  by (simp add: validate_query_def)

lemma validate_query_parsed:
  "parse rt query = Inr doc \<Longrightarrow>
   validate_query env rt query =
     (if isMutation doc \<and> \<not> ALLOW_MUTATIONS env then
        Some (error_result ''Mutations are not allowed. Set ALLOW_MUTATIONS=true to enable them.'')
      else None)"
  by (simp add: validate_query_def)

text \<open>
  C2. A query whose parsed document contains a mutation, with the mutation flag off:
  the result has \<open>isError = true\<close> and nothing is sent upstream, whatever the variables
  argument is. The variables are checked before the query, so the message is the one
  containing "not allowed" when the variables argument is absent, empty or valid JSON;
  under the same condition, with the flag on, the handler goes on to the execution and
  sends exactly the request for this query to the endpoint.
\<close>

theorem mutation_gate:
  assumes "parse rt query = Inr doc" and "isMutation doc"
  shows "(\<not> ALLOW_MUTATIONS env \<longrightarrow>
            isError (fst (query_graphql env rt query variables)) = Some True
          \<and> snd (query_graphql env rt query variables) = [])
       \<and> (parse_variables rt variables = Inr pv \<longrightarrow>
            (\<not> ALLOW_MUTATIONS env \<longrightarrow>
               content (fst (query_graphql env rt query variables)) =
                 [''Mutations are not allowed. Set ALLOW_MUTATIONS=true to enable them.'']
             \<and> sublist ''not allowed''
                 (hd (content (fst (query_graphql env rt query variables)))))
          \<and> (ALLOW_MUTATIONS env \<longrightarrow>
               query_graphql env rt query variables = execute_query env rt query pv
             \<and> snd (query_graphql env rt query variables)
                 = [upstream_request env rt query pv]))"
proof -
  have off: "validate_query env rt query =
      Some (error_result ''Mutations are not allowed. Set ALLOW_MUTATIONS=true to enable them.'')"
    if "\<not> ALLOW_MUTATIONS env"
    using assms that by (simp add: validate_query_parsed)
  have on: "validate_query env rt query = None" if "ALLOW_MUTATIONS env"
    using assms that by (simp add: validate_query_parsed)
  have a: "isError (fst (query_graphql env rt query variables)) = Some True
          \<and> snd (query_graphql env rt query variables) = []" if "\<not> ALLOW_MUTATIONS env"
    using query_graphql_rejected [OF off [OF that], of variables]
    by (auto simp: error_result_def dest: parse_variables_Inl_isError split: sum.splits)
  have b: "content (fst (query_graphql env rt query variables)) =
                 [''Mutations are not allowed. Set ALLOW_MUTATIONS=true to enable them.'']
             \<and> sublist ''not allowed''
                 (hd (content (fst (query_graphql env rt query variables))))"
    if "\<not> ALLOW_MUTATIONS env" "parse_variables rt variables = Inr pv"
    using query_graphql_rejected [OF off [OF that(1)], of variables] that(2)
      not_allowed_in_message
    by (simp add: error_result_def)
  have c: "query_graphql env rt query variables = execute_query env rt query pv
             \<and> snd (query_graphql env rt query variables) = [upstream_request env rt query pv]"
    if "ALLOW_MUTATIONS env" "parse_variables rt variables = Inr pv"
    using query_graphql_forwarded [OF that(2) on [OF that(1)]] by (simp add: snd_execute_query)
  from a b c show ?thesis by blast
qed

theorem mutation_gate_witness:
  "isError (fst (query_graphql (sample_env False None)
       (sample_runtime (http_response 200 ''OK'' data_body))
       ''mutation { addData { id } }'' None)) = Some True
   \<and> snd (query_graphql (sample_env False None)
       (sample_runtime (http_response 200 ''OK'' data_body))
       ''mutation { addData { id } }'' None) = []
   \<and> sublist ''not allowed''
       (hd (content (fst (query_graphql (sample_env False None)
         (sample_runtime (http_response 200 ''OK'' data_body))
         ''mutation { addData { id } }'' None))))
   \<and> snd (query_graphql (sample_env True None)
       (sample_runtime (http_response 200 ''OK'' data_body))
       ''mutation { addData { id } }'' None)
       = [upstream_request (sample_env True None)
            (sample_runtime (http_response 200 ''OK'' data_body))
            ''mutation { addData { id } }'' None]"
proof -
  let ?rt = "sample_runtime (http_response 200 ''OK'' data_body)"
  have p: "parse ?rt ''mutation { addData { id } }'' = Inr mutation_document"
    by (simp add: sample_defs)
  have m: "isMutation mutation_document"
    by (simp add: isMutation_def mutation_document_def)
  have e: "\<not> ALLOW_MUTATIONS (sample_env False None)" "ALLOW_MUTATIONS (sample_env True None)"
    by (simp_all add: sample_env_def)
  show ?thesis
    using mutation_gate [OF p m, of "sample_env False None" None None]
          mutation_gate [OF p m, of "sample_env True None" None None]
          parse_variables_absent [of ?rt] e
    by blast
qed

text \<open>
  The claim as written speaks of every call with such a query. With a variables argument
  that is not valid JSON the handler returns the variables error first: with the flag
  on nothing is executed, and with the flag off the message does not contain
  "not allowed".
\<close>

theorem mutation_gate_counterexample:
  "parse (sample_runtime (http_response 200 ''OK'' data_body)) ''mutation { addData { id } }''
     = Inr mutation_document
   \<and> isMutation mutation_document
   \<and> ALLOW_MUTATIONS (sample_env True None)
   \<and> query_graphql (sample_env True None) (sample_runtime (http_response 200 ''OK'' data_body))
        ''mutation { addData { id } }'' (Some invalid_variables)
       = (error_result
            ''Invalid variables: Must be a valid JSON string. Error: Unexpected token in JSON'',
          [])
   \<and> \<not> sublist ''not allowed''
         (hd (content (fst (query_graphql (sample_env False None)
            (sample_runtime (http_response 200 ''OK'' data_body))
            ''mutation { addData { id } }'' (Some invalid_variables)))))"
  by code_simp

text \<open>
  C6. A query that does not parse: the result has \<open>isError = true\<close> and nothing is sent
  upstream, whatever the variables argument is; the message is the one labelled
  \<open>Invalid GraphQL query\<close> when the variables argument is absent, empty or valid JSON.
\<close>

theorem invalid_query_rejected:
  assumes "parse rt query = Inl msg"
  shows "isError (fst (query_graphql env rt query variables)) = Some True
       \<and> snd (query_graphql env rt query variables) = []
       \<and> (parse_variables rt variables = Inr pv \<longrightarrow>
            content (fst (query_graphql env rt query variables))
              = [''Invalid GraphQL query: '' @ msg])"
  using query_graphql_rejected [OF validate_query_syntax_error [OF assms], of env variables]
  by (auto simp: error_result_def dest: parse_variables_Inl_isError split: sum.splits)

theorem invalid_query_rejected_witness:
  "isError (fst (query_graphql (sample_env False None)
       (sample_runtime (http_response 200 ''OK'' data_body)) invalid_query None)) = Some True
   \<and> snd (query_graphql (sample_env False None)
       (sample_runtime (http_response 200 ''OK'' data_body)) invalid_query None) = []
   \<and> content (fst (query_graphql (sample_env False None)
       (sample_runtime (http_response 200 ''OK'' data_body)) invalid_query None))
       = [''Invalid GraphQL query: Syntax Error: Expected Name, found <EOF>.'']"
proof -
  let ?rt = "sample_runtime (http_response 200 ''OK'' data_body)"
  have p: "parse ?rt invalid_query = Inl ''Syntax Error: Expected Name, found <EOF>.''"
    by (simp add: sample_defs)
  show ?thesis
    using invalid_query_rejected [OF p, of "sample_env False None" None None]
      parse_variables_absent [of ?rt]
    by simp
qed

text \<open>
  With a variables argument that is not valid JSON either, the message is the one for
  the variables, not the one for the query.
\<close>

theorem invalid_query_counterexample:
  "parse (sample_runtime (http_response 200 ''OK'' data_body)) invalid_query
     = Inl ''Syntax Error: Expected Name, found <EOF>.''
   \<and> content (fst (query_graphql (sample_env False None)
        (sample_runtime (http_response 200 ''OK'' data_body))
        invalid_query (Some invalid_variables)))
       = [''Invalid variables: Must be a valid JSON string. Error: Unexpected token in JSON'']
   \<and> \<not> sublist ''Invalid GraphQL query''
         (hd (content (fst (query_graphql (sample_env False None)
            (sample_runtime (http_response 200 ''OK'' data_body))
            invalid_query (Some invalid_variables)))))"
  by code_simp

text \<open>
  C10. A document counts as a mutation exactly when one of its definitions has kind
  \<open>OperationDefinition\<close> and operation \<open>mutation\<close>. A document whose operation
  definitions are all queries or subscriptions passes the check whatever the mutation
  flag is, and the handler sends the request for it upstream, when the variables
  argument is absent, empty or valid JSON.
\<close>

theorem mutation_classification:
  "(isMutation doc \<longleftrightarrow>
      (\<exists>d \<in> set (definitions doc).
         kind d = ''OperationDefinition'' \<and> operation d = Some ''mutation''))
   \<and> ((\<forall>d \<in> set (definitions doc). kind d = ''OperationDefinition'' \<longrightarrow>
          operation d = Some ''query'' \<or> operation d = Some ''subscription'')
        \<and> parse rt query = Inr doc \<longrightarrow>
          \<not> isMutation doc
        \<and> validate_query env rt query = None
        \<and> (parse_variables rt variables = Inr pv \<longrightarrow>
             query_graphql env rt query variables = execute_query env rt query pv
           \<and> snd (query_graphql env rt query variables)
               = [upstream_request env rt query pv]))"
proof -
  have iff: "isMutation doc \<longleftrightarrow>
      (\<exists>d \<in> set (definitions doc).
         kind d = ''OperationDefinition'' \<and> operation d = Some ''mutation'')"
    by (simp add: isMutation_def array_some_iff)
  have rest: "\<not> isMutation doc \<and> validate_query env rt query = None
        \<and> (parse_variables rt variables = Inr pv \<longrightarrow>
             query_graphql env rt query variables = execute_query env rt query pv
           \<and> snd (query_graphql env rt query variables) = [upstream_request env rt query pv])"
    if only: "\<forall>d \<in> set (definitions doc). kind d = ''OperationDefinition'' \<longrightarrow>
          operation d = Some ''query'' \<or> operation d = Some ''subscription''"
      and p: "parse rt query = Inr doc"
  proof -
    from only have n: "\<not> isMutation doc"
      unfolding iff by auto
    with p have v: "validate_query env rt query = None"
      by (simp add: validate_query_parsed)
    from n v show ?thesis
      by (auto simp: query_graphql_forwarded snd_execute_query)
  qed
  from iff rest show ?thesis by blast
qed

theorem mutation_classification_witness:
  "\<not> isMutation subscription_document
   \<and> snd (query_graphql (sample_env False None)
         (sample_runtime (http_response 200 ''OK'' data_body)) ''subscription { ticks }'' None)
       = [upstream_request (sample_env False None)
            (sample_runtime (http_response 200 ''OK'' data_body)) ''subscription { ticks }'' None]"
proof -
  let ?rt = "sample_runtime (http_response 200 ''OK'' data_body)"
  have p: "parse ?rt ''subscription { ticks }'' = Inr subscription_document"
    by (simp add: sample_defs)
  have only: "\<forall>d \<in> set (definitions subscription_document).
      kind d = ''OperationDefinition'' \<longrightarrow>
      operation d = Some ''query'' \<or> operation d = Some ''subscription''"
    by (simp add: subscription_document_def)
  show ?thesis
    using mutation_classification
      [of subscription_document ?rt "''subscription { ticks }''" "sample_env False None" None None]
      p only parse_variables_absent [of ?rt]
    by blast
qed

text \<open>
  A subscription with a variables argument that is not valid JSON is not forwarded.
\<close>

theorem mutation_classification_counterexample:
  "parse (sample_runtime (http_response 200 ''OK'' data_body)) ''subscription { ticks }''
     = Inr subscription_document
   \<and> \<not> isMutation subscription_document
   \<and> snd (query_graphql (sample_env False None)
        (sample_runtime (http_response 200 ''OK'' data_body))
        ''subscription { ticks }'' (Some invalid_variables)) = []"
  by code_simp














section \<open>Properties of search-schema\<close>




section \<open>Reindexing: failed chunks are dropped\<close>

text \<open>
  C9 speaks of the embedding calls in flight, which this model of the data flow does
  not have. What the data flow does show: the chunks upserted are the chunks whose
  embedding came back, in their order, numbered from 0.
\<close>

lemma valid_vectors_chunks:
  "map fst (valid_vectors svc docs) =
     map snd (filter (\<lambda>p. embed_task svc p \<noteq> None) (enumerate 0 docs))"
proof -
  have "fst (the (embed_task svc p)) = snd p" if "embed_task svc p \<noteq> None" for p
    using that by (cases p) (auto simp: embed_task_def split: sum.splits list.splits)
  then show ?thesis
    by (simp add: valid_vectors_def filter_map comp_def cong: map_cong)
qed

lemma refreshSchema_upserts_embedded_chunks:
  assumes "valid_vectors svc (splitText svc schemaSDL) \<noteq> []"
    and "recreateCollection svc
           (length (snd (hd (valid_vectors svc (splitText svc schemaSDL))))) = None"
  shows "\<exists>points. refreshSchema svc schemaSDL =
           [Qdrant_recreateCollection
              (length (snd (hd (valid_vectors svc (splitText svc schemaSDL))))),
            Qdrant_upsert points]
         \<and> map fst points = [0..<length (valid_vectors svc (splitText svc schemaSDL))]
         \<and> map (\<lambda>p. snd (snd p)) points =
             map snd (filter (\<lambda>p. embed_task svc p \<noteq> None)
                        (enumerate 0 (splitText svc schemaSDL)))"
proof -
  let ?docs = "splitText svc schemaSDL"
  let ?vv = "valid_vectors svc ?docs"
  have ne: "?docs \<noteq> []"
    using assms(1) by (auto simp: valid_vectors_def)
  have ids: "map fst (map (\<lambda>(i, v). (i, snd v, fst v)) (enumerate 0 ?vv)) = [0..<length ?vv]"
    by (simp add: comp_def case_prod_unfold map_fst_enumerate [unfolded comp_def])
  have chunks: "map (\<lambda>p. snd (snd p)) (map (\<lambda>(i, v). (i, snd v, fst v)) (enumerate 0 ?vv))
      = map fst ?vv"
    by (simp add: comp_def case_prod_unfold flip: map_map [of fst snd, unfolded comp_def])
  show ?thesis
    using assms ne ids chunks
    by (simp add: refreshSchema_def Let_def valid_vectors_chunks)
qed

lemma two_of_ten_fail:
  "refreshSchema failing_services ''schema'' =
     [Qdrant_recreateCollection 2,
      Qdrant_upsert
        [(0, [0, 1], ''c0''), (1, [1, 1], ''c1''), (2, [2, 1], ''c2''), (3, [4, 1], ''c4''),
         (4, [5, 1], ''c5''), (5, [6, 1], ''c6''), (6, [8, 1], ''c8''), (7, [9, 1], ''c9'')]]"
  by (simp add: refreshSchema_def valid_vectors_def embed_task_def failing_services_def
        ten_chunks_def Let_def enumerate_eq_zip upt_rec)

section \<open>Properties of the API key check\<close>

lemmas request_defs = initialize_request_def tool_request_def sse_request_def
  messages_request_def jsonrpc_body_def sample_isInitializeRequest_def

lemma truthy_string_Some [simp]: "truthy_string (Some s) \<longleftrightarrow> s \<noteq> []"
  by (simp add: truthy_string_def)

lemma truthy_string_None [simp]: "\<not> truthy_string None"
  by (simp add: truthy_string_def)

lemma run_middleware_app_use:
  "run_middleware app_use env req =
     (if req_path req = Path_mcp \<or> req_path req = Path_messages then
        authenticateApiKey env req
      else Next)"
  by (auto simp: app_use_def split: middleware_result.splits)

text \<open>
  C1. With a non-empty key configured, every request to \<open>/mcp\<close> and to \<open>/messages\<close> is
  checked: a missing or empty \<open>X-API-Key\<close> header is answered 401, a non-empty header
  that differs from the key 403, and the request reaches its route only with the right
  key. With no key (or an empty one) configured the middleware lets everything pass.
  No middleware is mounted on \<open>/sse\<close>: a GET there opens a session whatever the key
  and the header are.
\<close>

theorem api_key_check:
  "(\<not> truthy_string (MCP_API_KEY env) \<longrightarrow> run_middleware app_use env req = Next)
   \<and> (truthy_string (MCP_API_KEY env)
        \<and> (req_path req = Path_mcp \<or> req_path req = Path_messages) \<longrightarrow>
         (\<not> truthy_string (header_x_api_key req) \<longrightarrow>
            app env isInitializeRequest req eff minted st
              = (Sent 401 ''Unauthorized: Missing X-API-Key header'', st))
       \<and> (truthy_string (header_x_api_key req)
            \<and> header_x_api_key req \<noteq> MCP_API_KEY env \<longrightarrow>
            app env isInitializeRequest req eff minted st
              = (Sent 403 ''Forbidden: Invalid API Key'', st))
       \<and> (header_x_api_key req = MCP_API_KEY env \<longrightarrow>
            run_middleware app_use env req = Next))
   \<and> (req_path req = Path_sse \<longrightarrow>
         run_middleware app_use env req = Next
       \<and> app env isInitializeRequest req eff minted st
           = (if req_method req = GET then sse_route minted st else (NotFound, st)))"
  by (auto simp: run_middleware_app_use app_def authenticateApiKey_def Let_def)

theorem api_key_check_witness:
  "app (sample_env False (Some ''s3cret'')) sample_isInitializeRequest
      initialize_request (Session_initialized ''id-1'') ''sse-1'' initial_state
     = (Sent 401 ''Unauthorized: Missing X-API-Key header'', initial_state)
   \<and> app (sample_env False (Some ''s3cret'')) sample_isInitializeRequest
      ((messages_request ''sse-1'')\<lparr>header_x_api_key := Some ''guess''\<rparr>)
      No_callback ''sse-2'' initial_state
     = (Sent 403 ''Forbidden: Invalid API Key'', initial_state)
   \<and> run_middleware app_use (sample_env False None) initialize_request = Next"
  using api_key_check [of "sample_env False (Some ''s3cret'')" initialize_request
          sample_isInitializeRequest "Session_initialized ''id-1''" "''sse-1''" initial_state]
        api_key_check [of "sample_env False (Some ''s3cret'')"
          "(messages_request ''sse-1'')\<lparr>header_x_api_key := Some ''guess''\<rparr>"
          sample_isInitializeRequest No_callback "''sse-2''" initial_state]
        api_key_check [of "sample_env False None" initialize_request]
  by (simp add: sample_env_def request_defs truthy_string_def)

text \<open>
  The claim as written includes the stream-open endpoint \<open>/sse\<close> among the checked
  ones. With a key configured and no header, a GET on \<open>/sse\<close> is served: the
  transport is created and registered.
\<close>

theorem api_key_check_counterexample:
  "truthy_string (MCP_API_KEY (sample_env False (Some ''s3cret'')))
   \<and> header_x_api_key sse_request = None
   \<and> fst (app (sample_env False (Some ''s3cret'')) sample_isInitializeRequest
        sse_request No_callback ''sse-1'' initial_state) = Connected 0
   \<and> sseTransports (snd (app (sample_env False (Some ''s3cret'')) sample_isInitializeRequest
        sse_request No_callback ''sse-1'' initial_state)) ''sse-1'' = Some 0"
  by code_simp

section \<open>Properties of the session multiplexer\<close>

subsection \<open>What each callback leaves alone\<close>

lemma onclose_fields [simp]:
  "servers (onclose t st) = servers st"
  "next_transport (onclose t st) = next_transport st"
  "transports (onclose t st) = transports st"
  "sseTransports (onclose t st) = sseTransports st"
  "now (onclose t st) = now st"
  by (auto simp: onclose_def clearTimeout_def Let_def split: option.splits)


lemma transport_close_fields [simp]:
  "servers (transport_close t st) = servers st"
  "next_transport (transport_close t st) = next_transport st"
  "sseTransports (transport_close t st) = sseTransports st"
  "now (transport_close t st) = now st"
  "transports (transport_close t st) =
     (transports st)(t := map_option (\<lambda>tr. tr\<lparr>closed := True\<rparr>) (transports st t))"
  by (simp_all add: transport_close_def)


lemma onsessioninitialized_fields [simp]:
  "servers (onsessioninitialized t sid st) = servers st"
  "next_transport (onsessioninitialized t sid st) = next_transport st"
  "sseTransports (onsessioninitialized t sid st) = sseTransports st"
  "now (onsessioninitialized t sid st) = now st"
  "streamableTransports (onsessioninitialized t sid st) = (streamableTransports st)(sid \<mapsto> t)"
  "transports (onsessioninitialized t sid st) =
     (transports st)(t := map_option (\<lambda>tr. tr\<lparr>sessionTimeoutHandle := Some (next_timer st)\<rparr>)
        (transports st t))"
  "timers (onsessioninitialized t sid st) =
     (timers st)(next_timer st \<mapsto>
        \<lparr>deadline = now st + timeoutMs, timeout_id = sid, timeout_transport = t\<rparr>)"
  "next_timer (onsessioninitialized t sid st) = Suc (next_timer st)"
  by (simp_all add: onsessioninitialized_def Let_def)

lemma handleRequest_fields [simp]:
  "servers (handleRequest t eff st) = servers st"
  "next_transport (handleRequest t eff st) = next_transport st"
  "sseTransports (handleRequest t eff st) = sseTransports st"
  "now (handleRequest t eff st) = now st"
  by (simp_all add: handleRequest_def split: sdk_effect.splits)

subsection \<open>The routes on the stream-style endpoint\<close>



lemma mcp_route_rejects:
  assumes "\<not> (truthy_string (header_mcp_session_id req)
             \<and> js_get (streamableTransports st) (the (header_mcp_session_id req)) \<noteq> Undefined)"
    and "\<not> (\<not> truthy_string (header_mcp_session_id req) \<and> isInitializeRequest (req_body req))"
  shows "mcp_route isInitializeRequest req eff st = (SentJson 400 invalid_handshake, st)"
  using assms by (auto simp: mcp_route_def Let_def)

lemma messages_route_rejects:
  assumes "js_get (sseTransports st)
             (case query_sessionId req of None \<Rightarrow> ''undefined'' | Some s \<Rightarrow> s) = Undefined"
  shows "messages_route req st = (Sent 400 ''Unknown or expired sessionId'', st)"
  using assms by (simp add: messages_route_def Let_def)


text \<open>
  C3. The rejections hold for every id that is neither registered nor the name of a
  property of \<open>Object.prototype\<close> (lemmas \<open>mcp_route_rejects\<close> and
  \<open>messages_route_rejects\<close>: the answer is 400 and the state is unchanged). For an
  unregistered id such as \<open>constructor\<close> the lookup in the registry finds the inherited
  property, the handler takes it for a transport, and the call of its method throws:
  neither endpoint answers with the bad-request error.
\<close>

theorem inherited_key_not_rejected:
  "streamableTransports initial_state ''constructor'' = None
   \<and> sseTransports initial_state ''constructor'' = None
   \<and> \<not> sample_isInitializeRequest (req_body (tool_request ''constructor''))
   \<and> mcp_route sample_isInitializeRequest (tool_request ''constructor'') No_callback initial_state
       = (Threw ''transport.handleRequest is not a function'', initial_state)
   \<and> messages_route (messages_request ''constructor'') initial_state
       = (Threw ''transport.handlePostMessage is not a function'', initial_state)"
  by (simp add: mcp_route_def messages_route_def js_get_def Object_prototype_keys_def
        request_defs initial_state_def)


subsection \<open>The invariant is kept by every step\<close>











lemma sse_route_fields [simp]:
  "streamableTransports (snd (sse_route minted st)) = streamableTransports st"
  "sseTransports (snd (sse_route minted st)) = (sseTransports st)(minted \<mapsto> next_transport st)"
  "transports (snd (sse_route minted st)) =
     (transports st)(next_transport st \<mapsto>
        \<lparr>transport_kind = SSE, sessionId = Some minted, sessionTimeoutHandle = None,
         closed = False\<rparr>)"
  "next_transport (snd (sse_route minted st)) = Suc (next_transport st)"
  "servers (snd (sse_route minted st)) = servers st @ [next_transport st]"
  "timers (snd (sse_route minted st)) = timers st"
  "now (snd (sse_route minted st)) = now st"
  "fst (sse_route minted st) = Connected (next_transport st)"
  by (simp_all add: sse_route_def Let_def new_transport_def buildMcpServer_connect_def)


lemma messages_route_state [simp]: "snd (messages_route req st) = st"
  by (simp add: messages_route_def Let_def split: property.splits)




subsection \<open>A registered id keeps its transport until it is removed\<close>








subsection \<open>The deadline of a streamable session\<close>




lemmas run_defs =
  step_def app_def run_middleware_app_use authenticateApiKey_def mcp_route_def
  sse_route_def messages_route_def js_get_def Let_def new_transport_def
  buildMcpServer_connect_def handleRequest_def onsessioninitialized_def onclose_def
  transport_close_def fire_def timeout_callback_def clearTimeout_def timeoutMs_def
  initial_state_def sample_env_def request_defs Object_prototype_keys_def



text \<open>
  The timeout of a streamable session is armed once, in \<open>onsessioninitialized\<close>, and
  the reuse branch does not touch it: a request one millisecond before the hour is
  served, and the session is removed at the hour all the same.
\<close>

lemma deadline_is_not_renewed_by_traffic:
  "fst (app (sample_env False None) sample_isInitializeRequest (tool_request ''id-1'')
          No_callback ''sse-2''
          (run (sample_env False None) sample_isInitializeRequest
             [Incoming initialize_request (Session_initialized ''id-1'') ''sse-1'',
              Tick 3599999] initial_state)) = Handled 0
   \<and> streamableTransports
     (run (sample_env False None) sample_isInitializeRequest
        [Incoming initialize_request (Session_initialized ''id-1'') ''sse-1'',
         Tick 3599999,
         Incoming (tool_request ''id-1'') No_callback ''sse-2'',
         Tick 1, Timer_fires 0 Close_ok] initial_state) ''id-1'' = None"
  by (simp add: run_defs)

end
